theory Spec2Isabelle
  imports Complex_Main "HOL-Library.AList"
begin

section \<open>Modelling conventions\<close>

text \<open>
  The development embeds the decision layer of the bot: \<^verbatim>\<open>game_state.py\<close>,
  \<^verbatim>\<open>route_manager.py\<close>, \<^verbatim>\<open>combo_manager.py\<close>, \<^verbatim>\<open>mob_controller.py\<close> and
  \<^verbatim>\<open>combat_system.py\<close>.

  \<^item> Python \<^verbatim>\<open>float\<close> values are idealised as \<^typ>\<open>real\<close>: the properties below are about
    comparisons and state changes, not about rounding. Python \<^verbatim>\<open>int\<close> is \<^typ>\<open>int\<close>.
  \<^item> Every mutating coroutine becomes a function from the object's state to its new state.
    The \<^verbatim>\<open>asyncio.Lock\<close> of \<^verbatim>\<open>GameState\<close> makes each locked body one atomic step, which is
    what one function application is.
  \<^item> Every clock reading (\<^verbatim>\<open>time.time()\<close>, \<^verbatim>\<open>loop.time()\<close>) is an explicit argument.
  \<^item> A raised exception is a value of \<open>py_error\<close>; a call that never returns is \<open>None\<close>.
  \<^item> Loggers are omitted: they do not touch the state.
  \<^item> Record fields keep the attribute names of the source; where two classes share an
    attribute name, or the name is a HOL constant, the field carries a short prefix.
\<close>

datatype py_error = UnboundLocalError | TypeError

section \<open>game\_state.py\<close>

datatype CharacterState = IDLE | MOVING | COMBAT | DEAD | STUNNED | KNOCKDOWN | FROZEN

datatype CombatState = NONE | ATTACKING | DEFENDING | CHASING | ESCAPING

text \<open>The \<^verbatim>\<open>.value\<close> string of a \<^verbatim>\<open>CharacterState\<close> member.\<close>

fun CharacterState_value :: "CharacterState \<Rightarrow> string" where
  "CharacterState_value IDLE = ''idle''"
| "CharacterState_value MOVING = ''moving''"
| "CharacterState_value COMBAT = ''combat''"
| "CharacterState_value DEAD = ''dead''"
| "CharacterState_value STUNNED = ''stunned''"
| "CharacterState_value KNOCKDOWN = ''knockdown''"
| "CharacterState_value FROZEN = ''frozen''"

record Position =
  pos_x :: real
  pos_y :: real
  pos_z :: real
  rotation :: real

text \<open>\<^verbatim>\<open>Position.distance_to\<close>: \<^verbatim>\<open>(dx ** 2 + dy ** 2 + dz ** 2) ** 0.5\<close>.\<close>

definition distance_to :: "Position \<Rightarrow> Position \<Rightarrow> real" where
  "distance_to self other =
     sqrt ((pos_x self - pos_x other)\<^sup>2 + (pos_y self - pos_y other)\<^sup>2
           + (pos_z self - pos_z other)\<^sup>2)"

record CharacterStats =
  level :: int
  hp :: real
  hp_max :: real
  mp :: real
  mp_max :: real
  wp :: real
  wp_max :: real
  stamina :: real
  stamina_max :: real
  ap :: int
  dp :: int
  accuracy :: int
  evasion :: int

definition CharacterStats_default :: CharacterStats where
  "CharacterStats_default =
     \<lparr>level = 1, hp = 100, hp_max = 100, mp = 100, mp_max = 100, wp = 100, wp_max = 100,
      stamina = 100, stamina_max = 100, ap = 0, dp = 0, accuracy = 0, evasion = 0\<rparr>"

record SkillCooldown =
  skill_id :: string
  remaining_time :: real
  total_cooldown :: real

text \<open>
  The dictionaries that \<^verbatim>\<open>MobController._mob_info_to_dict\<close> builds and \<^verbatim>\<open>update_mobs\<close>
  stores, and the player dictionaries of \<^verbatim>\<open>update_nearby_players\<close>, of which the code
  reads only \<^verbatim>\<open>p.get('is_hostile', False)\<close>.
\<close>

record MobDict =
  md_id :: int
  md_type :: string
  md_position :: "real \<times> real \<times> real"
  md_health :: real
  md_distance :: real
  md_threat_level :: real
  md_is_aggro :: bool
  md_is_elite :: bool

record PlayerDict =
  player_is_hostile :: "bool option"

type_synonym ItemDict = "(string \<times> string) list"

record GameState =
  character_state :: CharacterState
  combat_state :: CombatState
  position :: Position
  stats :: CharacterStats
  inventory :: "(int \<times> ItemDict) list"
  equipment :: "(string \<times> ItemDict) list"
  weight :: real
  weight_limit :: real
  active_buffs :: "string \<rightharpoonup> real"
  skill_cooldowns :: "string \<rightharpoonup> SkillCooldown"
  combat_stance :: bool
  detected_mobs :: "MobDict list"
  targeted_mob :: "MobDict option"
  aggro_mobs :: "int set"
  nearby_players :: "PlayerDict list"
  is_safe_zone :: bool
  is_pvp_zone :: bool
  last_update :: real
  frame_times :: "real list"

text \<open>\<^verbatim>\<open>GameState.__init__\<close>; \<open>t0\<close> is the reading of \<^verbatim>\<open>time.time()\<close> at construction.\<close>

definition GameState_init :: "real \<Rightarrow> GameState" where
  "GameState_init t0 =
     \<lparr>character_state = IDLE, combat_state = NONE,
      position = \<lparr>pos_x = 0, pos_y = 0, pos_z = 0, rotation = 0\<rparr>,
      stats = CharacterStats_default,
      inventory = [], equipment = [], weight = 0, weight_limit = 100,
      active_buffs = Map.empty, skill_cooldowns = Map.empty, combat_stance = False,
      detected_mobs = [], targeted_mob = None, aggro_mobs = {},
      nearby_players = [], is_safe_zone = False, is_pvp_zone = False,
      last_update = t0, frame_times = []\<rparr>"

text \<open>
  \<^verbatim>\<open>update_position\<close>. \<open>t1\<close> and \<open>t2\<close> are its two readings of \<^verbatim>\<open>time.time()\<close>. The local
  \<^verbatim>\<open>distance\<close> is bound only inside \<^verbatim>\<open>if time_diff > 0\<close>; when that test fails the later
  \<^verbatim>\<open>if distance > 0.1\<close> raises \<^verbatim>\<open>UnboundLocalError\<close>, after the position and the time stamp
  have been stored. The speed is only logged.
\<close>

definition update_position ::
  "real \<Rightarrow> real \<Rightarrow> Position \<Rightarrow> GameState \<Rightarrow> py_error option \<times> GameState" where
  "update_position t1 t2 new_pos s =
     (let time_diff = t1 - last_update s;
          moved = distance_to (position s) new_pos;
          s1 = s\<lparr>position := new_pos, last_update := t2\<rparr>
      in if time_diff > 0 then
           (None,
            if moved > 0.1 then s1\<lparr>character_state := MOVING\<rparr>
            else if character_state s1 = MOVING then s1\<lparr>character_state := IDLE\<rparr>
            else s1)
         else (Some UnboundLocalError, s1))"

text \<open>A \<^verbatim>\<open>Dict\<close> of partial stats, and \<^verbatim>\<open>dict.get(key, default)\<close>.\<close>

type_synonym StatsDict = "string \<rightharpoonup> real"

definition dict_get :: "('k \<rightharpoonup> 'v) \<Rightarrow> 'k \<Rightarrow> 'v \<Rightarrow> 'v" where
  "dict_get d k dflt = (case d k of None \<Rightarrow> dflt | Some v \<Rightarrow> v)"

definition update_stats :: "StatsDict \<Rightarrow> GameState \<Rightarrow> GameState" where
  "update_stats d s =
     (let st = stats s;
          st1 = st\<lparr>hp := dict_get d ''hp'' (hp st)\<rparr>;
          st2 = st1\<lparr>mp := dict_get d ''mp'' (mp st1)\<rparr>;
          st3 = st2\<lparr>wp := dict_get d ''wp'' (wp st2)\<rparr>;
          st4 = st3\<lparr>stamina := dict_get d ''stamina'' (stamina st3)\<rparr>;
          s1 = s\<lparr>stats := st4\<rparr>
      in if hp st4 \<le> 0 then s1\<lparr>character_state := DEAD\<rparr> else s1)"

definition update_combat_state :: "CombatState \<Rightarrow> GameState \<Rightarrow> GameState" where
  "update_combat_state new_state s =
     (if new_state \<noteq> combat_state s then
        (let s1 = s\<lparr>combat_state := new_state\<rparr>
         in if new_state = ATTACKING then s1\<lparr>character_state := COMBAT\<rparr>
            else if new_state = NONE \<and> character_state s1 = COMBAT
                 then s1\<lparr>character_state := IDLE\<rparr>
            else s1)
      else s)"

text \<open>
  \<^verbatim>\<open>update_skill_cooldowns\<close> deletes every entry whose expiry time has been reached;
  \<^verbatim>\<open>start_skill_cooldown\<close> stores the expiry time \<^verbatim>\<open>time.time() + duration\<close>;
  \<^verbatim>\<open>can_use_skill\<close> does not take the lock and changes nothing.
\<close>

definition update_skill_cooldowns :: "real \<Rightarrow> GameState \<Rightarrow> GameState" where
  "update_skill_cooldowns current_time s =
     s\<lparr>skill_cooldowns :=
         (\<lambda>k. case skill_cooldowns s k of
                 None \<Rightarrow> None
               | Some cd \<Rightarrow> if current_time \<ge> remaining_time cd then None else Some cd)\<rparr>"

definition start_skill_cooldown :: "real \<Rightarrow> string \<Rightarrow> real \<Rightarrow> GameState \<Rightarrow> GameState" where
  "start_skill_cooldown now sid duration s =
     (let end_time = now + duration
      in s\<lparr>skill_cooldowns := (skill_cooldowns s)
            (sid \<mapsto> \<lparr>skill_id = sid, remaining_time = end_time, total_cooldown = duration\<rparr>)\<rparr>)"

definition can_use_skill :: "real \<Rightarrow> string \<Rightarrow> GameState \<Rightarrow> bool" where
  "can_use_skill now sid s =
     (case skill_cooldowns s sid of
        None \<Rightarrow> True
      | Some cd \<Rightarrow> now \<ge> remaining_time cd)"

text \<open>
  \<^verbatim>\<open>update_mobs\<close>. When the targeted mob is missing from the new list while the combat
  state is \<^verbatim>\<open>ATTACKING\<close>, the body awaits \<^verbatim>\<open>update_combat_state\<close> while still holding the
  lock that \<^verbatim>\<open>update_combat_state\<close> acquires; \<^verbatim>\<open>asyncio.Lock\<close> is not re-entrant, so that
  call never returns: the result is \<open>None\<close>.
\<close>

definition update_mobs :: "MobDict list \<Rightarrow> GameState \<Rightarrow> GameState option" where
  "update_mobs mobs s =
     (let s1 = s\<lparr>detected_mobs := mobs\<rparr>
      in case targeted_mob s1 of
           None \<Rightarrow> Some s1
         | Some tm \<Rightarrow>
             (case find (\<lambda>m. md_id m = md_id tm) mobs of
                Some m \<Rightarrow> Some (s1\<lparr>targeted_mob := Some m\<rparr>)
              | None \<Rightarrow>
                  (if combat_state s1 = ATTACKING then None
                   else Some (s1\<lparr>targeted_mob := None\<rparr>))))"


text \<open>
  A sequence of mutating operations on the world state. An \<^verbatim>\<open>UnboundLocalError\<close> of
  \<^verbatim>\<open>update_position\<close> reaches the caller, but what was stored before it stays stored, and
  the next operation starts from that state.
\<close>

datatype WorldOp =
    UpdateCombatState CombatState
  | UpdatePosition real real Position
  | UpdateStats StatsDict

fun apply_op :: "WorldOp \<Rightarrow> GameState \<Rightarrow> GameState" where
  "apply_op (UpdateCombatState c) s = update_combat_state c s"
| "apply_op (UpdatePosition t1 t2 p) s = snd (update_position t1 t2 p s)"
| "apply_op (UpdateStats d) s = update_stats d s"

fun run_ops :: "WorldOp list \<Rightarrow> GameState \<Rightarrow> GameState" where
  "run_ops [] s = s"
| "run_ops (op # ops) s = run_ops ops (apply_op op s)"

text \<open>
  An operation is \<open>calm\<close> in a state unless the character state is \<^verbatim>\<open>COMBAT\<close> and the
  operation is an \<^verbatim>\<open>update_position\<close> that finds the clock advanced and moves by more than
  the 0.1 movement threshold, or an \<^verbatim>\<open>update_stats\<close> that leaves \<^verbatim>\<open>hp\<close> at or below 0.
  Outside \<^verbatim>\<open>COMBAT\<close> every operation is calm.
\<close>

fun calm :: "GameState \<Rightarrow> WorldOp \<Rightarrow> bool" where
  "calm s (UpdateCombatState c) = True"
| "calm s (UpdatePosition t1 t2 p) =
     (\<not> (character_state s = COMBAT \<and> t1 - last_update s > 0
          \<and> distance_to (position s) p > 0.1))"
| "calm s (UpdateStats d) =
     (\<not> (character_state s = COMBAT \<and> dict_get d ''hp'' (hp (stats s)) \<le> 0))"

fun all_calm :: "GameState \<Rightarrow> WorldOp list \<Rightarrow> bool" where
  "all_calm s [] = True"
| "all_calm s (op # ops) = (calm s op \<and> all_calm (apply_op op s) ops)"

definition coupled :: "GameState \<Rightarrow> bool" where
  "coupled s = (combat_state s \<noteq> ATTACKING \<or> character_state s = COMBAT)"

text \<open>
  Calls of the cooldown interface, each with the clock reading at which it runs, and the
  state they leave.
\<close>

datatype CooldownCall =
    StartSkillCooldown string real
  | UpdateSkillCooldowns
  | CanUseSkill string

fun cooldown_step :: "real \<times> CooldownCall \<Rightarrow> GameState \<Rightarrow> GameState" where
  "cooldown_step (t, StartSkillCooldown sid duration) s = start_skill_cooldown t sid duration s"
| "cooldown_step (t, UpdateSkillCooldowns) s = update_skill_cooldowns t s"
| "cooldown_step (t, CanUseSkill sid) s = s"

fun run_calls :: "(real \<times> CooldownCall) list \<Rightarrow> GameState \<Rightarrow> GameState" where
  "run_calls [] s = s"
| "run_calls (c # cs) s = run_calls cs (cooldown_step c s)"

text \<open>
  The specification's side of the cooldown property, written from its words: the most
  recent \<^verbatim>\<open>start_skill_cooldown\<close> call for an id (its time and its duration), and the
  answer the specification expects, with \<open>elapsed\<close> compared strictly (\<open>spec_can_use_skill\<close>,
  "exceeds") and weakly (\<open>spec_can_use_skill_ge\<close>, "has reached").
\<close>

fun spec_last_start :: "string \<Rightarrow> (real \<times> CooldownCall) list \<Rightarrow> (real \<times> real) option" where
  "spec_last_start sid [] = None"
| "spec_last_start sid ((t, c) # cs) =
     (case spec_last_start sid cs of
        Some r \<Rightarrow> Some r
      | None \<Rightarrow>
          (case c of
             StartSkillCooldown sid' duration \<Rightarrow> if sid' = sid then Some (t, duration) else None
           | UpdateSkillCooldowns \<Rightarrow> None
           | CanUseSkill sid' \<Rightarrow> None))"

definition spec_can_use_skill :: "real \<Rightarrow> string \<Rightarrow> (real \<times> CooldownCall) list \<Rightarrow> bool" where
  "spec_can_use_skill now sid calls =
     (case spec_last_start sid calls of
        None \<Rightarrow> True
      | Some (t, duration) \<Rightarrow> now - t > duration)"

definition spec_can_use_skill_ge :: "real \<Rightarrow> string \<Rightarrow> (real \<times> CooldownCall) list \<Rightarrow> bool" where
  "spec_can_use_skill_ge now sid calls =
     (case spec_last_start sid calls of
        None \<Rightarrow> True
      | Some (t, duration) \<Rightarrow> now - t \<ge> duration)"

section \<open>route\_manager.py: stuck detection\<close>

text \<open>
  \<^verbatim>\<open>route_manager.py\<close> has a \<^verbatim>\<open>Position\<close> class of its own, without a rotation. Of the
  \<^verbatim>\<open>RouteManager\<close> attributes the record keeps those that stuck detection and waypoint
  progression use; the loaded Lua route tables are not part of it.
\<close>

record RoutePosition =
  rp_x :: real
  rp_y :: real
  rp_z :: real

definition route_distance_to :: "RoutePosition \<Rightarrow> RoutePosition \<Rightarrow> real" where
  "route_distance_to self other =
     sqrt ((rp_x self - rp_x other)\<^sup>2 + (rp_y self - rp_y other)\<^sup>2
           + (rp_z self - rp_z other)\<^sup>2)"

record RouteManager =
  current_waypoint_index :: int
  last_position :: "RoutePosition option"
  stuck_counter :: int

definition RouteManager_init :: RouteManager where
  "RouteManager_init = \<lparr>current_waypoint_index = 0, last_position = None, stuck_counter = 0\<rparr>"

text \<open>
  \<^verbatim>\<open>RouteManager.update_position\<close>. \<^verbatim>\<open>if self.last_position:\<close> tests for \<^verbatim>\<open>None\<close>: an instance
  of the dataclass is always true.
\<close>

definition RouteManager_update_position :: "RoutePosition \<Rightarrow> RouteManager \<Rightarrow> RouteManager" where
  "RouteManager_update_position current_position rm =
     (let rm1 =
        (case last_position rm of
           None \<Rightarrow> rm
         | Some lp \<Rightarrow>
             (if route_distance_to current_position lp < 1.0
              then rm\<lparr>stuck_counter := stuck_counter rm + 1\<rparr>
              else rm\<lparr>stuck_counter := 0\<rparr>))
      in rm1\<lparr>last_position := Some current_position\<rparr>)"

definition is_stuck :: "RouteManager \<Rightarrow> bool" where
  "is_stuck rm = (stuck_counter rm > 10)"

definition reset_stuck_counter :: "RouteManager \<Rightarrow> RouteManager" where
  "reset_stuck_counter rm = rm\<lparr>stuck_counter := 0\<rparr>"

fun run_position_updates :: "RoutePosition list \<Rightarrow> RouteManager \<Rightarrow> RouteManager" where
  "run_position_updates [] rm = rm"
| "run_position_updates (q # qs) rm = run_position_updates qs (RouteManager_update_position q rm)"

text \<open>
  A run of reported positions, each less than one unit away from the position reported
  before it (\<open>p\<close> for the first).
\<close>

fun creeping :: "RoutePosition \<Rightarrow> RoutePosition list \<Rightarrow> bool" where
  "creeping p [] = True"
| "creeping p (q # qs) = (route_distance_to q p < 1.0 \<and> creeping q qs)"

section \<open>combo\_manager.py\<close>

record ComboAction =
  keys :: "string list"
  action_type :: string
  duration :: real
  animation_time :: real

record Combo =
  name :: string
  actions :: "ComboAction list"
  cooldown :: real
  mp_cost :: real
  range_type :: string
  total_duration :: real
  conditions :: "(string \<times> string) list"

text \<open>
  The embedded Lua runtime is outside the repository. \<^verbatim>\<open>lua.eval(chunk)\<close> is a parameter:
  \<open>Some b\<close> when the evaluation returns a value of truthiness \<open>b\<close>, \<open>None\<close> when it raises.
\<close>

type_synonym LuaRuntime = "string \<Rightarrow> bool option"

text \<open>
  The calls that reach the input handler. Each of \<^verbatim>\<open>press_key\<close>, \<^verbatim>\<open>hold_key\<close> and
  \<^verbatim>\<open>release_key\<close> catches its own exceptions, so none of them raises into the combo
  manager; \<^verbatim>\<open>press_key\<close> without a duration is a key press followed by its release.
\<close>

datatype KeyEvent = PressKey string | HoldKey string | ReleaseKey string

record ComboManager =
  combos :: "(string \<times> Combo) list"
  current_combo :: "string option"
  last_combo_time :: real
  successful_skills :: int
  total_skills :: int
  combo_history :: "(string \<times> real) list"
  max_history :: int

definition ComboManager_init :: ComboManager where
  "ComboManager_init =
     \<lparr>combos = [], current_combo = None, last_combo_time = 0, successful_skills = 0,
      total_skills = 0, combo_history = [], max_history = 50\<rparr>"

text \<open>
  \<^verbatim>\<open>next((_time for name, _time in reversed(self.combo_history) if name == combo.name), 0)\<close>
\<close>

definition last_use :: "(string \<times> real) list \<Rightarrow> string \<Rightarrow> real" where
  "last_use history n =
     (case find (\<lambda>e. fst e = n) (rev history) of None \<Rightarrow> 0 | Some e \<Rightarrow> snd e)"

definition check_cooldown :: "real \<Rightarrow> Combo \<Rightarrow> ComboManager \<Rightarrow> bool" where
  "check_cooldown now combo cm =
     (now - last_use (combo_history cm) (name combo) \<ge> cooldown combo)"

definition check_combo_conditions ::
  "LuaRuntime \<Rightarrow> real \<Rightarrow> Combo \<Rightarrow> ComboManager \<Rightarrow> GameState \<Rightarrow> bool" where
  "check_combo_conditions lua now combo cm gs =
     (if \<not> check_cooldown now combo cm then False
      else if mp (stats gs) < mp_cost combo then False
      else (case lua (dict_get (map_of (conditions combo)) ''check'' ''return true'') of
              None \<Rightarrow> False
            | Some conditions_met \<Rightarrow> conditions_met))"

definition check_action_conditions :: "GameState \<Rightarrow> bool" where
  "check_action_conditions gs =
     (if CharacterState_value (character_state gs) \<in> set [''stunned'', ''knockdown'', ''dead'']
      then False
      else if hp (stats gs) \<le> 0 then False
      else True)"

text \<open>
  One step of a combo, as the calls it makes on the input handler. The sleeps (hold
  duration, animation time) emit nothing; an action type other than the three named ones
  does nothing.
\<close>

definition apply_action :: "ComboAction \<Rightarrow> KeyEvent list" where
  "apply_action action =
     (if action_type action = ''press'' then map PressKey (keys action)
      else if action_type action = ''hold''
           then map HoldKey (keys action) @ map ReleaseKey (rev (keys action))
      else if action_type action = ''release'' then map ReleaseKey (keys action)
      else [])"

text \<open>
  The keys held down after a list of input calls, starting from the set \<open>held\<close>:
  \<^verbatim>\<open>hold_key\<close> is \<^verbatim>\<open>pyautogui.keyDown\<close>, \<^verbatim>\<open>release_key\<close> is \<^verbatim>\<open>pyautogui.keyUp\<close>, and
  \<^verbatim>\<open>press_key\<close> without a duration is \<^verbatim>\<open>pyautogui.press\<close>, a key-down followed by its
  key-up.
\<close>

fun held_after :: "KeyEvent list \<Rightarrow> string set \<Rightarrow> string set" where
  "held_after [] held = held"
| "held_after (PressKey k # evs) held = held_after evs (held - {k})"
| "held_after (HoldKey k # evs) held = held_after evs (insert k held)"
| "held_after (ReleaseKey k # evs) held = held_after evs (held - {k})"

text \<open>
  \<^verbatim>\<open>release_all_keys\<close>. \<^verbatim>\<open>if self.current_combo and self.current_combo in self.combos\<close> tests the
  truthiness of the name first: \<^verbatim>\<open>None\<close> and the empty string both fail it.
\<close>

definition release_all_keys :: "ComboManager \<Rightarrow> KeyEvent list" where
  "release_all_keys cm =
     map ReleaseKey [''shift'', ''ctrl'', ''alt''] @
     (case current_combo cm of
        None \<Rightarrow> []
      | Some cn \<Rightarrow>
          (if cn \<noteq> [] then
             (case map_of (combos cm) cn of
                None \<Rightarrow> []
              | Some combo \<Rightarrow> concat (map (\<lambda>action. map ReleaseKey (keys action)) (actions combo)))
           else []))"

text \<open>
  The loop over the steps of a combo. Every step suspends (the input handler's delays, the
  hold and animation sleeps), and other coroutines may change the world state meanwhile:
  \<open>world i\<close> is what they do to it during step \<open>i\<close> (the identity when nothing else runs).
  The result is the index of the step whose cancellation check failed, if any, the world
  state at that moment, and the input calls of the steps that ran.
\<close>

fun run_actions ::
  "(nat \<Rightarrow> GameState \<Rightarrow> GameState) \<Rightarrow> nat \<Rightarrow> ComboAction list \<Rightarrow> GameState
     \<Rightarrow> nat option \<times> GameState \<times> KeyEvent list" where
  "run_actions world i [] gs = (None, gs, [])"
| "run_actions world i (action # rest) gs =
     (if \<not> check_action_conditions gs then (Some i, gs, [])
      else (case run_actions world (Suc i) rest (world i gs) of
              (r, gs', evs) \<Rightarrow> (r, gs', apply_action action @ evs)))"

definition consume_mp :: "Combo \<Rightarrow> GameState \<Rightarrow> GameState" where
  "consume_mp combo gs = gs\<lparr>stats := (stats gs)\<lparr>mp := mp (stats gs) - mp_cost combo\<rparr>\<rparr>"

definition start_cooldown :: "real \<Rightarrow> Combo \<Rightarrow> GameState \<Rightarrow> GameState" where
  "start_cooldown now combo gs = start_skill_cooldown now (name combo) (cooldown combo) gs"

text \<open>
  \<^verbatim>\<open>execute_combo\<close>. \<open>t_check\<close>, \<open>t_start\<close> and \<open>t_end\<close> are the readings of \<^verbatim>\<open>time.time()\<close> in
  the cooldown check, at the start of the combo and in \<^verbatim>\<open>start_skill_cooldown\<close>. The result
  is the returned flag, the manager, the world state and the input calls made. The
  \<^verbatim>\<open>finally\<close> clause clears \<^verbatim>\<open>current_combo\<close> on every path, after \<^verbatim>\<open>release_all_keys\<close> has
  read it. With the input handler and the Lua runtime modelled as above, nothing in the
  body raises, so the two \<^verbatim>\<open>except\<close> clauses have no path of their own.
\<close>

definition execute_combo ::
  "LuaRuntime \<Rightarrow> (nat \<Rightarrow> GameState \<Rightarrow> GameState) \<Rightarrow> real \<Rightarrow> real \<Rightarrow> real \<Rightarrow> string
     \<Rightarrow> ComboManager \<Rightarrow> GameState \<Rightarrow> bool \<times> ComboManager \<times> GameState \<times> KeyEvent list" where
  "execute_combo lua world t_check t_start t_end combo_name cm gs =
     (case map_of (combos cm) combo_name of
        None \<Rightarrow> (False, cm\<lparr>current_combo := None\<rparr>, gs, [])
      | Some combo \<Rightarrow>
          (if \<not> check_combo_conditions lua t_check combo cm gs
           then (False, cm\<lparr>current_combo := None\<rparr>, gs, [])
           else
             (let history = combo_history cm @ [(combo_name, t_start)];
                  cm1 = cm\<lparr>current_combo := Some combo_name, last_combo_time := t_start,
                          combo_history :=
                            (if int (length history) > max_history cm then tl history
                             else history)\<rparr>
              in case run_actions world 0 (actions combo) gs of
                   (Some i, gs', evs) \<Rightarrow>
                     (False, cm1\<lparr>current_combo := None\<rparr>, gs', evs @ release_all_keys cm1)
                 | (None, gs', evs) \<Rightarrow>
                     (True,
                      cm1\<lparr>successful_skills := successful_skills cm1 + 1,
                          total_skills := total_skills cm1 + 1,
                          current_combo := None\<rparr>,
                      consume_mp combo (start_cooldown t_end combo gs'),
                      evs))))"




section \<open>mob\_controller.py\<close>

record MobInfo =
  mob_id :: int
  mob_type :: string
  mob_position :: Position
  health :: real
  mob_size :: "int \<times> int"
  distance :: real
  threat_level :: real
  last_seen :: real
  is_aggro :: bool
  is_elite :: bool

text \<open>
  What \<^verbatim>\<open>process_frame\<close> reads of a detection: \<^verbatim>\<open>detection['mob_type']\<close>,
  \<^verbatim>\<open>detection['bbox']\<close>, \<^verbatim>\<open>'elite' in detection\<close>, \<^verbatim>\<open>detection.get('is_elite', False)\<close> and
  \<^verbatim>\<open>detection.get('distance', 0)\<close>. The detector of \<^verbatim>\<open>detection.py\<close> returns
  \<^verbatim>\<open>DetectionResult\<close> dataclass instances, which cannot be subscripted: the first
  \<^verbatim>\<open>detection['mob_type']\<close> on one raises \<^verbatim>\<open>TypeError\<close>.
\<close>

record DetectionDict =
  det_mob_type :: string
  det_bbox :: "int \<times> int \<times> int \<times> int"
  det_has_elite_key :: bool
  det_is_elite :: "bool option"
  det_distance :: "real option"

datatype Detection = DictDetection DetectionDict | DetectionResult

text \<open>
  \<^verbatim>\<open>tracked_mobs\<close> is a dictionary in insertion order, keyed by mob id. A \<^verbatim>\<open>MobInfo\<close>
  object is identified by its \<^verbatim>\<open>mob_id\<close>, which \<^verbatim>\<open>_generate_mob_id\<close> never hands out
  twice; the current target is a reference to such an object.
\<close>

record MobController =
  tracked_mobs :: "(int \<times> MobInfo) list"
  mc_current_target :: "MobInfo option"
  mob_id_counter :: int
  min_group_size :: int
  mc_max_chase_distance :: real
  mob_memory_time :: real

definition MobController_init :: MobController where
  "MobController_init =
     \<lparr>tracked_mobs = [], mc_current_target = None, mob_id_counter = 0, min_group_size = 3,
      mc_max_chase_distance = 50.0, mob_memory_time = 3.0\<rparr>"

definition screen_to_world_pos :: "int \<times> int \<times> int \<times> int \<Rightarrow> Position" where
  "screen_to_world_pos bbox =
     (case bbox of
        (bx, by, bw, bh) \<Rightarrow>
          (let center_x = real_of_int bx + real_of_int bw / 2;
               center_y = real_of_int by + real_of_int bh / 2
           in \<lparr>pos_x = center_x, pos_y = 0, pos_z = center_y, rotation = 0.0\<rparr>))"

definition calculate_threat_level :: "DetectionDict \<Rightarrow> real" where
  "calculate_threat_level detection =
     (case det_bbox detection of
        (bx, by, bw, bh) \<Rightarrow>
          (let threat0 = real_of_int (bw * bh) / 10000.0;
               threat1 = (if (case det_is_elite detection of None \<Rightarrow> False | Some e \<Rightarrow> e)
                          then threat0 + 0.5 else threat0);
               threat2 = (if (case det_distance detection of None \<Rightarrow> 0 | Some v \<Rightarrow> v) < 10.0
                          then threat1 + 0.3 else threat1)
           in min threat2 1.0))"

text \<open>
  \<^verbatim>\<open>_find_matching_mob\<close>: the nearest tracked mob strictly within 5 units, the first one
  on ties. \<open>best_d\<close> is \<^verbatim>\<open>min_distance\<close>, with \<open>None\<close> for \<^verbatim>\<open>float('inf')\<close>. The result
  carries the dictionary key with the object.
\<close>

fun find_matching_mob_loop ::
  "Position \<Rightarrow> (int \<times> MobInfo) list \<Rightarrow> (int \<times> MobInfo) option \<Rightarrow> real option
     \<Rightarrow> (int \<times> MobInfo) option" where
  "find_matching_mob_loop pos [] best_match best_d = best_match"
| "find_matching_mob_loop pos ((k, mob) # rest) best_match best_d =
     (let d = distance_to (mob_position mob) pos
      in if (case best_d of None \<Rightarrow> True | Some m \<Rightarrow> d < m) \<and> d < 5.0
         then find_matching_mob_loop pos rest (Some (k, mob)) (Some d)
         else find_matching_mob_loop pos rest best_match best_d)"

definition find_matching_mob :: "Position \<Rightarrow> MobController \<Rightarrow> (int \<times> MobInfo) option" where
  "find_matching_mob pos mc = find_matching_mob_loop pos (tracked_mobs mc) None None"

definition cleanup_old_mobs :: "real \<Rightarrow> MobController \<Rightarrow> MobController" where
  "cleanup_old_mobs current_time mc =
     mc\<lparr>tracked_mobs :=
          filter (\<lambda>e. \<not> (current_time - last_seen (snd e) > mob_memory_time mc))
            (tracked_mobs mc)\<rparr>"

definition mob_info_to_dict :: "MobInfo \<Rightarrow> MobDict" where
  "mob_info_to_dict mob =
     \<lparr>md_id = mob_id mob, md_type = mob_type mob,
      md_position = (pos_x (mob_position mob), pos_y (mob_position mob), pos_z (mob_position mob)),
      md_health = health mob, md_distance = distance mob, md_threat_level = threat_level mob,
      md_is_aggro = is_aggro mob, md_is_elite = is_elite mob\<rparr>"

text \<open>
  The loop of \<^verbatim>\<open>process_frame\<close> over the detections, each paired with the reading of the
  loop clock made while it is handled. A matched object is updated in place: in
  \<^verbatim>\<open>tracked_mobs\<close>, and in the current target when that is the same object. The result is the
  exception that stopped the loop, if any, the controller, and \<^verbatim>\<open>current_mobs\<close>.
\<close>

fun process_detections ::
  "Position \<Rightarrow> (Detection \<times> real) list \<Rightarrow> MobController \<Rightarrow> (int \<times> MobInfo) list
     \<Rightarrow> py_error option \<times> MobController \<times> (int \<times> MobInfo) list" where
  "process_detections player_pos [] mc current_mobs = (None, mc, current_mobs)"
| "process_detections player_pos ((DetectionResult, t) # rest) mc current_mobs =
     (Some TypeError, mc, current_mobs)"
| "process_detections player_pos ((DictDetection detection, t) # rest) mc current_mobs =
     (let pos = screen_to_world_pos (det_bbox detection);
          d = distance_to player_pos pos
      in case find_matching_mob pos mc of
           Some (k, tracked_mob) \<Rightarrow>
             (let mob = tracked_mob\<lparr>mob_position := pos, distance := d, last_seen := t\<rparr>;
                  mc1 = mc\<lparr>tracked_mobs := AList.update k mob (tracked_mobs mc),
                          mc_current_target :=
                            (case mc_current_target mc of
                               None \<Rightarrow> None
                             | Some tg \<Rightarrow> if mob_id tg = mob_id mob then Some mob else Some tg)\<rparr>
              in process_detections player_pos rest mc1
                   (AList.update (mob_id mob) mob current_mobs))
         | None \<Rightarrow>
             (let mc1 = mc\<lparr>mob_id_counter := mob_id_counter mc + 1\<rparr>;
                  new_mob =
                    \<lparr>mob_id = mob_id_counter mc1, mob_type = det_mob_type detection,
                     mob_position = pos, health = 100.0,
                     mob_size = (case det_bbox detection of (bx, by, bw, bh) \<Rightarrow> (bw, bh)),
                     distance = d, threat_level = calculate_threat_level detection,
                     last_seen = t, is_aggro = False,
                     is_elite = det_has_elite_key detection\<rparr>
              in process_detections player_pos rest mc1
                   (AList.update (mob_id new_mob) new_mob current_mobs)))"

text \<open>
  \<^verbatim>\<open>process_frame\<close>, on the list the detector returned. \<open>t_cleanup\<close> is the clock reading of
  \<^verbatim>\<open>_cleanup_old_mobs\<close>. An exception in the body is caught and the empty list returned,
  with whatever the loop had changed by then. The result is \<open>None\<close> when \<^verbatim>\<open>update_mobs\<close>
  never returns.
\<close>

definition process_frame ::
  "(Detection \<times> real) list \<Rightarrow> real \<Rightarrow> MobController \<Rightarrow> GameState
     \<Rightarrow> (MobInfo list \<times> MobController \<times> GameState) option" where
  "process_frame detections t_cleanup mc gs =
     (case process_detections (position gs) detections mc [] of
        (Some e, mc1, current_mobs) \<Rightarrow> Some ([], mc1, gs)
      | (None, mc1, current_mobs) \<Rightarrow>
          (let mc2 = cleanup_old_mobs t_cleanup mc1;
               mc3 = mc2\<lparr>tracked_mobs := current_mobs\<rparr>
           in case update_mobs (map (\<lambda>e. mob_info_to_dict (snd e)) current_mobs) gs of
                None \<Rightarrow> None
              | Some gs' \<Rightarrow> Some (map snd current_mobs, mc3, gs')))"

text \<open>\<^verbatim>\<open>MobController.is_target_valid\<close>: it reads the distance stored in the target.\<close>

definition is_target_valid :: "MobController \<Rightarrow> bool" where
  "is_target_valid mc =
     (case mc_current_target mc of
        None \<Rightarrow> False
      | Some tg \<Rightarrow>
          (if mob_id tg \<notin> fst ` set (tracked_mobs mc) then False
           else if distance tg > mc_max_chase_distance mc then False
           else True))"

section \<open>combat\_system.py\<close>

record CombatMetrics =
  damage_dealt :: real
  damage_taken :: real
  skill_accuracy :: real
  combat_time :: real
  kills :: int

text \<open>
  The combat system. \<open>pvp_enabled\<close> and \<open>channel_swap_on_pvp\<close> are the configuration's
  \<^verbatim>\<open>config.get('pvp_enabled', False)\<close> and \<^verbatim>\<open>config.get('channel_swap_on_pvp', False)\<close>. The
  target is the referenced \<^verbatim>\<open>MobInfo\<close> object with the field values it has when it is read.
\<close>

record CombatSystem =
  in_combat :: bool
  cs_current_target :: "MobInfo option"
  metrics :: CombatMetrics
  min_mob_count :: int
  cs_max_chase_distance :: real
  min_hp_percent :: real
  min_mp_percent :: real
  last_position_check :: Position
  cs_stuck_counter :: int
  max_stuck_time :: int
  pvp_enabled :: bool
  channel_swap_on_pvp :: bool
  last_pvp_check :: real
  last_combat_time :: real
  combat_reset_time :: real

definition CombatSystem_init :: CombatSystem where
  "CombatSystem_init =
     \<lparr>in_combat = False, cs_current_target = None,
      metrics = \<lparr>damage_dealt = 0, damage_taken = 0, skill_accuracy = 0, combat_time = 0,
                 kills = 0\<rparr>,
      min_mob_count = 3, cs_max_chase_distance = 50.0, min_hp_percent = 0.3,
      min_mp_percent = 0.2,
      last_position_check = \<lparr>pos_x = 0, pos_y = 0, pos_z = 0, rotation = 0\<rparr>,
      cs_stuck_counter = 0, max_stuck_time = 5, pvp_enabled = False,
      channel_swap_on_pvp = False, last_pvp_check = 0, last_combat_time = 0,
      combat_reset_time = 5.0\<rparr>"


text \<open>\<^verbatim>\<open>CombatSystem._is_target_valid\<close>: the flag, and the system with its kill counter.\<close>

definition CombatSystem_is_target_valid ::
  "CombatSystem \<Rightarrow> GameState \<Rightarrow> bool \<times> CombatSystem" where
  "CombatSystem_is_target_valid cs gs =
     (case cs_current_target cs of
        None \<Rightarrow> (False, cs)
      | Some tg \<Rightarrow>
          (let d = distance_to (position gs) (mob_position tg)
           in if d > cs_max_chase_distance cs then (False, cs)
              else if health tg \<le> 0
                   then (False, cs\<lparr>metrics := (metrics cs)\<lparr>kills := kills (metrics cs) + 1\<rparr>\<rparr>)
              else (True, cs)))"








definition spec_target_valid :: "MobInfo \<Rightarrow> (int \<times> MobInfo) list \<Rightarrow> real \<Rightarrow> real \<Rightarrow> bool" where
  "spec_target_valid tg tracked d max_chase =
     (mob_id tg \<in> fst ` set tracked \<and> \<not> d > max_chase \<and> \<not> health tg \<le> 0)"

section \<open>Example data\<close>

text \<open>
  Concrete inputs on which the properties below are evaluated: a two-step combo loaded
  under a given name with a given cost, a manager holding only that combo, a Lua runtime
  whose every evaluation is true, three behaviours of the other coroutines during a
  combo (nothing happens; the character is stunned during the first step; a stats update
  reports \<^verbatim>\<open>mp = 10\<close> during the first step), a tracked mob, a detection dictionary and
  the clock readings of an emergency exit.
\<close>

definition example_combo :: "string \<Rightarrow> real \<Rightarrow> Combo" where
  "example_combo n cost =
     \<lparr>name = n,
      actions = [\<lparr>keys = [''a''], action_type = ''press'', duration = 0, animation_time = 0.2\<rparr>,
                 \<lparr>keys = [''b''], action_type = ''press'', duration = 0, animation_time = 0.2\<rparr>],
      cooldown = 5, mp_cost = cost, range_type = ''close'', total_duration = 0.4,
      conditions = [(''check'', ''true'')]\<rparr>"

definition example_manager :: "string \<Rightarrow> real \<Rightarrow> ComboManager" where
  "example_manager n cost = ComboManager_init\<lparr>combos := [(n, example_combo n cost)]\<rparr>"

definition lua_true :: LuaRuntime where
  "lua_true chunk = Some True"

definition quiet :: "nat \<Rightarrow> GameState \<Rightarrow> GameState" where
  "quiet i gs = gs"

definition stun_during_first_step :: "nat \<Rightarrow> GameState \<Rightarrow> GameState" where
  "stun_during_first_step i gs = (if i = 0 then gs\<lparr>character_state := STUNNED\<rparr> else gs)"

definition mp_drops_during_first_step :: "nat \<Rightarrow> GameState \<Rightarrow> GameState" where
  "mp_drops_during_first_step i gs = (if i = 0 then update_stats [''mp'' \<mapsto> 10] gs else gs)"

definition example_mob :: "int \<Rightarrow> real \<Rightarrow> real \<Rightarrow> MobInfo" where
  "example_mob i x h =
     \<lparr>mob_id = i, mob_type = ''wolf'',
      mob_position = \<lparr>pos_x = x, pos_y = 0, pos_z = 0, rotation = 0\<rparr>,
      health = h, mob_size = (4, 6), distance = x, threat_level = 0.3, last_seen = 10,
      is_aggro = False, is_elite = False\<rparr>"

definition wolf_detection :: DetectionDict where
  "wolf_detection =
     \<lparr>det_mob_type = ''wolf'', det_bbox = (10, 20, 4, 6), det_has_elite_key = False,
      det_is_elite = None, det_distance = None\<rparr>"




section \<open>Verified properties\<close>

subsection \<open>World state: frame of \<^verbatim>\<open>update_stats\<close>\<close>

lemma distance_to_self: "distance_to p p = 0"
  by (simp add: distance_to_def)

lemmas world_defs = update_stats_def update_position_def update_combat_state_def
  GameState_init_def distance_to_def dict_get_def CharacterStats_default_def Let_def

lemma update_stats_fields:
  "update_stats d s =
     s\<lparr>stats := (stats s)\<lparr>hp := dict_get d ''hp'' (hp (stats s)),
                           mp := dict_get d ''mp'' (mp (stats s)),
                           wp := dict_get d ''wp'' (wp (stats s)),
                           stamina := dict_get d ''stamina'' (stamina (stats s))\<rparr>,
       character_state := (if dict_get d ''hp'' (hp (stats s)) \<le> 0 then DEAD
                           else character_state s)\<rparr>"
  by (simp add: update_stats_def Let_def)

text \<open>
  Claim C10, as amended. For every call of \<^verbatim>\<open>update_stats\<close> with any partial mapping, every
  field of the world state other than the stats and the character state is unchanged; of
  the stats, only \<^verbatim>\<open>hp\<close>, \<^verbatim>\<open>mp\<close>, \<^verbatim>\<open>wp\<close> and \<^verbatim>\<open>stamina\<close> are written, each with the
  mapping's value or its old value; the character state becomes \<^verbatim>\<open>DEAD\<close> when the
  \<^verbatim>\<open>hp\<close> that results from the merge is at most 0 and is unchanged otherwise; and keys of
  the mapping other than those four (\<^verbatim>\<open>hp_max\<close>, say) have no effect.
\<close>

theorem update_stats_frame:
  "position (update_stats d s) = position s
   \<and> combat_state (update_stats d s) = combat_state s
   \<and> skill_cooldowns (update_stats d s) = skill_cooldowns s
   \<and> active_buffs (update_stats d s) = active_buffs s
   \<and> detected_mobs (update_stats d s) = detected_mobs s
   \<and> targeted_mob (update_stats d s) = targeted_mob s
   \<and> nearby_players (update_stats d s) = nearby_players s
   \<and> inventory (update_stats d s) = inventory s
   \<and> equipment (update_stats d s) = equipment s
   \<and> weight (update_stats d s) = weight s
   \<and> weight_limit (update_stats d s) = weight_limit s
   \<and> combat_stance (update_stats d s) = combat_stance s
   \<and> aggro_mobs (update_stats d s) = aggro_mobs s
   \<and> is_safe_zone (update_stats d s) = is_safe_zone s
   \<and> is_pvp_zone (update_stats d s) = is_pvp_zone s
   \<and> last_update (update_stats d s) = last_update s
   \<and> frame_times (update_stats d s) = frame_times s
   \<and> level (stats (update_stats d s)) = level (stats s)
   \<and> hp_max (stats (update_stats d s)) = hp_max (stats s)
   \<and> mp_max (stats (update_stats d s)) = mp_max (stats s)
   \<and> wp_max (stats (update_stats d s)) = wp_max (stats s)
   \<and> stamina_max (stats (update_stats d s)) = stamina_max (stats s)
   \<and> ap (stats (update_stats d s)) = ap (stats s)
   \<and> dp (stats (update_stats d s)) = dp (stats s)
   \<and> accuracy (stats (update_stats d s)) = accuracy (stats s)
   \<and> evasion (stats (update_stats d s)) = evasion (stats s)
   \<and> hp (stats (update_stats d s)) = dict_get d ''hp'' (hp (stats s))
   \<and> mp (stats (update_stats d s)) = dict_get d ''mp'' (mp (stats s))
   \<and> wp (stats (update_stats d s)) = dict_get d ''wp'' (wp (stats s))
   \<and> stamina (stats (update_stats d s)) = dict_get d ''stamina'' (stamina (stats s))
   \<and> character_state (update_stats d s) =
       (if hp (stats (update_stats d s)) \<le> 0 then DEAD else character_state s)
   \<and> update_stats (d |` {''hp'', ''mp'', ''wp'', ''stamina''}) s = update_stats d s"
  by (simp add: update_stats_fields dict_get_def)

text \<open>
  Claim C10 as stated lets the character state change only when the \<^emph>\<open>provided\<close> \<^verbatim>\<open>hp\<close> is
  at most 0. From the initial state, \<^verbatim>\<open>update_stats({'hp': 0})\<close> followed by a position
  update that moves one unit leaves \<^verbatim>\<open>hp = 0\<close> with the character \<^verbatim>\<open>MOVING\<close>; then
  \<^verbatim>\<open>update_stats({})\<close>, which provides no \<^verbatim>\<open>hp\<close> at all, changes the character state to
  \<^verbatim>\<open>DEAD\<close>.
\<close>

theorem update_stats_frame_counterexample:
  "character_state
     (run_ops [UpdateStats [''hp'' \<mapsto> 0],
               UpdatePosition 1 1 \<lparr>pos_x = 1, pos_y = 0, pos_z = 0, rotation = 0\<rparr>]
        (GameState_init 0)) = MOVING
   \<and> character_state
       (update_stats Map.empty
          (run_ops [UpdateStats [''hp'' \<mapsto> 0],
                    UpdatePosition 1 1 \<lparr>pos_x = 1, pos_y = 0, pos_z = 0, rotation = 0\<rparr>]
             (GameState_init 0))) = DEAD
   \<and> (Map.empty :: StatsDict) ''hp'' = None"
  by (simp add: world_defs)

subsection \<open>World state: coupling of combat state and character state\<close>

lemma update_combat_state_coupled: "coupled s \<Longrightarrow> coupled (update_combat_state c s)"
  by (auto simp: coupled_def update_combat_state_def Let_def)

lemma calm_step_coupled: "coupled s \<Longrightarrow> calm s op \<Longrightarrow> coupled (apply_op op s)"
proof (cases op)
  case (UpdateCombatState c)
  assume "coupled s"
  then show ?thesis using UpdateCombatState by (simp add: update_combat_state_coupled)
next
  case (UpdatePosition t1 t2 p)
  assume "coupled s" "calm s op"
  then show ?thesis using UpdatePosition
    by (auto simp: coupled_def update_position_def Let_def)
next
  case (UpdateStats d)
  assume "coupled s" "calm s op"
  then show ?thesis using UpdateStats
    by (auto simp: coupled_def update_stats_def Let_def)
qed

lemma calm_run_coupled: "coupled s \<Longrightarrow> all_calm s ops \<Longrightarrow> coupled (run_ops ops s)"
  by (induction ops arbitrary: s) (auto simp: calm_step_coupled)

lemma calm_leaves_combat:
  assumes "calm s op" "character_state s = COMBAT" "character_state (apply_op op s) \<noteq> COMBAT"
  shows "op = UpdateCombatState NONE \<and> combat_state (apply_op op s) = NONE"
proof (cases op)
  case (UpdateCombatState c)
  with assms show ?thesis
    by (auto simp: update_combat_state_def Let_def split: if_splits)
next
  case (UpdatePosition t1 t2 p)
  with assms show ?thesis
    by (auto simp: update_position_def Let_def split: if_splits)
next
  case (UpdateStats d)
  with assms show ?thesis
    by (auto simp: update_stats_def Let_def split: if_splits)
qed

text \<open>
  Claim C1, as amended. Take any sequence of \<^verbatim>\<open>update_combat_state\<close>, \<^verbatim>\<open>update_position\<close> and
  \<^verbatim>\<open>update_stats\<close> operations, started in a state where \<^verbatim>\<open>ATTACKING\<close> implies \<^verbatim>\<open>COMBAT\<close> (the
  initial state is one), in which no operation applied while the character state is
  \<^verbatim>\<open>COMBAT\<close> is a position update that finds the clock advanced and moves by more than the
  0.1 movement threshold, or a stats update that leaves \<^verbatim>\<open>hp\<close> at or below 0; outside
  \<^verbatim>\<open>COMBAT\<close> the operations are not restricted. Then \<^verbatim>\<open>ATTACKING\<close> implies \<^verbatim>\<open>COMBAT\<close> after the
  sequence, and an operation of such a sequence takes the character state away from
  \<^verbatim>\<open>COMBAT\<close> only when it is \<^verbatim>\<open>update_combat_state(NONE)\<close>, which leaves the combat state
  \<^verbatim>\<open>NONE\<close>. The excluded operations do not keep the coupling: a position update that finds
  the clock advanced and moves by more than the threshold sets \<^verbatim>\<open>MOVING\<close>, and a stats
  update that leaves \<^verbatim>\<open>hp\<close> at or below 0 sets \<^verbatim>\<open>DEAD\<close>, both without touching the combat
  state. A position update that does not find the clock advanced stores the position and
  the time stamp, raises \<^verbatim>\<open>UnboundLocalError\<close> and leaves the character state as it was.
\<close>

theorem combat_coupling_calm:
  "(coupled s \<and> all_calm s ops \<longrightarrow> coupled (run_ops ops s))
   \<and> (\<forall>op. calm s op \<and> character_state s = COMBAT \<and> character_state (apply_op op s) \<noteq> COMBAT
         \<longrightarrow> op = UpdateCombatState NONE \<and> combat_state (apply_op op s) = NONE)
   \<and> (\<forall>t1 t2 p. t1 - last_update s > 0 \<and> distance_to (position s) p > 0.1
         \<longrightarrow> character_state (apply_op (UpdatePosition t1 t2 p) s) = MOVING
             \<and> combat_state (apply_op (UpdatePosition t1 t2 p) s) = combat_state s)
   \<and> (\<forall>t1 t2 p. \<not> t1 - last_update s > 0
         \<longrightarrow> update_position t1 t2 p s
               = (Some UnboundLocalError, s\<lparr>position := p, last_update := t2\<rparr>))
   \<and> (\<forall>d. dict_get d ''hp'' (hp (stats s)) \<le> 0
         \<longrightarrow> character_state (apply_op (UpdateStats d) s) = DEAD
             \<and> combat_state (apply_op (UpdateStats d) s) = combat_state s)"
proof (intro conjI allI impI)
  show "coupled (run_ops ops s)" if "coupled s \<and> all_calm s ops"
    using that by (simp add: calm_run_coupled)
next
  fix op
  assume a: "calm s op \<and> character_state s = COMBAT \<and> character_state (apply_op op s) \<noteq> COMBAT"
  then show "op = UpdateCombatState NONE" using calm_leaves_combat by blast
  from a show "combat_state (apply_op op s) = NONE" using calm_leaves_combat by blast
next
  fix t1 t2 p
  assume a: "t1 - last_update s > 0 \<and> distance_to (position s) p > 0.1"
  then show "character_state (apply_op (UpdatePosition t1 t2 p) s) = MOVING"
    by (simp add: update_position_def Let_def)
  from a show "combat_state (apply_op (UpdatePosition t1 t2 p) s) = combat_state s"
    by (simp add: update_position_def Let_def)
next
  fix t1 t2 p
  assume "\<not> t1 - last_update s > 0"
  then show "update_position t1 t2 p s
               = (Some UnboundLocalError, s\<lparr>position := p, last_update := t2\<rparr>)"
    by (simp add: update_position_def Let_def)
next
  fix d
  assume a: "dict_get d ''hp'' (hp (stats s)) \<le> 0"
  then show "character_state (apply_op (UpdateStats d) s) = DEAD"
    by (simp add: update_stats_def Let_def)
  from a show "combat_state (apply_op (UpdateStats d) s) = combat_state s"
    by (simp add: update_stats_def Let_def)
qed

text \<open>
  The amended claim C1 at a concrete run from the initial state: walk one unit, attack,
  stand still, lose some \<^verbatim>\<open>mp\<close>, defend, attack again. Every operation is calm (the walk
  happens outside \<^verbatim>\<open>COMBAT\<close>) and the run ends \<^verbatim>\<open>ATTACKING\<close> with the character in
  \<^verbatim>\<open>COMBAT\<close>.
\<close>

theorem combat_coupling_calm_witness:
  "coupled (GameState_init 0)
   \<and> all_calm (GameState_init 0)
        [UpdatePosition 1 1 \<lparr>pos_x = 1, pos_y = 0, pos_z = 0, rotation = 0\<rparr>,
         UpdateCombatState ATTACKING,
         UpdatePosition 2 2 \<lparr>pos_x = 1, pos_y = 0, pos_z = 0, rotation = 0\<rparr>,
         UpdateStats [''mp'' \<mapsto> 5], UpdateCombatState DEFENDING, UpdateCombatState ATTACKING]
   \<and> coupled (run_ops
        [UpdatePosition 1 1 \<lparr>pos_x = 1, pos_y = 0, pos_z = 0, rotation = 0\<rparr>,
         UpdateCombatState ATTACKING,
         UpdatePosition 2 2 \<lparr>pos_x = 1, pos_y = 0, pos_z = 0, rotation = 0\<rparr>,
         UpdateStats [''mp'' \<mapsto> 5], UpdateCombatState DEFENDING, UpdateCombatState ATTACKING]
        (GameState_init 0))
   \<and> combat_state (run_ops
        [UpdatePosition 1 1 \<lparr>pos_x = 1, pos_y = 0, pos_z = 0, rotation = 0\<rparr>,
         UpdateCombatState ATTACKING,
         UpdatePosition 2 2 \<lparr>pos_x = 1, pos_y = 0, pos_z = 0, rotation = 0\<rparr>,
         UpdateStats [''mp'' \<mapsto> 5], UpdateCombatState DEFENDING, UpdateCombatState ATTACKING]
        (GameState_init 0)) = ATTACKING
   \<and> character_state (run_ops
        [UpdatePosition 1 1 \<lparr>pos_x = 1, pos_y = 0, pos_z = 0, rotation = 0\<rparr>,
         UpdateCombatState ATTACKING,
         UpdatePosition 2 2 \<lparr>pos_x = 1, pos_y = 0, pos_z = 0, rotation = 0\<rparr>,
         UpdateStats [''mp'' \<mapsto> 5], UpdateCombatState DEFENDING, UpdateCombatState ATTACKING]
        (GameState_init 0)) = COMBAT
   \<and> character_state (run_ops
        [UpdatePosition 1 1 \<lparr>pos_x = 1, pos_y = 0, pos_z = 0, rotation = 0\<rparr>]
        (GameState_init 0)) = MOVING
   \<and> update_position 0 0 \<lparr>pos_x = 1, pos_y = 0, pos_z = 0, rotation = 0\<rparr> (GameState_init 0)
       = (Some UnboundLocalError,
          (GameState_init 0)\<lparr>position := \<lparr>pos_x = 1, pos_y = 0, pos_z = 0, rotation = 0\<rparr>,
                              last_update := 0\<rparr>)"
  using combat_coupling_calm [of "GameState_init 0"
        "[UpdatePosition 1 1 \<lparr>pos_x = 1, pos_y = 0, pos_z = 0, rotation = 0\<rparr>,
         UpdateCombatState ATTACKING,
         UpdatePosition 2 2 \<lparr>pos_x = 1, pos_y = 0, pos_z = 0, rotation = 0\<rparr>,
         UpdateStats [''mp'' \<mapsto> 5], UpdateCombatState DEFENDING, UpdateCombatState ATTACKING]"]
  by (simp add: world_defs coupled_def)

text \<open>
  Claim C1 as stated fails: from the initial state, \<^verbatim>\<open>update_combat_state(ATTACKING)\<close>
  followed by a position update that moves one unit (one second after construction) ends
  with the combat state \<^verbatim>\<open>ATTACKING\<close> and the character state \<^verbatim>\<open>MOVING\<close>.
\<close>

theorem combat_coupling_counterexample:
  "combat_state
     (run_ops [UpdateCombatState ATTACKING,
               UpdatePosition 1 1 \<lparr>pos_x = 1, pos_y = 0, pos_z = 0, rotation = 0\<rparr>]
        (GameState_init 0)) = ATTACKING
   \<and> character_state
     (run_ops [UpdateCombatState ATTACKING,
               UpdatePosition 1 1 \<lparr>pos_x = 1, pos_y = 0, pos_z = 0, rotation = 0\<rparr>]
        (GameState_init 0)) = MOVING"
  by (simp add: world_defs)

subsection \<open>World state: skill cooldowns\<close>

lemmas cooldown_defs = can_use_skill_def start_skill_cooldown_def update_skill_cooldowns_def
  spec_can_use_skill_ge_def spec_can_use_skill_def GameState_init_def Let_def

lemma sweep_query:
  "t \<le> now \<Longrightarrow> can_use_skill now sid (update_skill_cooldowns t s) = can_use_skill now sid s"
  by (auto simp: can_use_skill_def update_skill_cooldowns_def split: option.splits)

lemma start_query:
  "can_use_skill now sid (start_skill_cooldown t sid' d s) =
     (if sid' = sid then now \<ge> t + d else can_use_skill now sid s)"
  by (auto simp: can_use_skill_def start_skill_cooldown_def Let_def)

lemma run_calls_query:
  "\<forall>c \<in> set calls. fst c \<le> now \<Longrightarrow>
   can_use_skill now sid (run_calls calls s) =
     (case spec_last_start sid calls of
        None \<Rightarrow> can_use_skill now sid s
      | Some (t, d) \<Rightarrow> now \<ge> t + d)"
proof (induction calls arbitrary: s)
  case Nil
  then show ?case by simp
next
  case (Cons c cs)
  obtain t call where c: "c = (t, call)" by (cases c)
  have le: "t \<le> now" using Cons.prems c by simp
  have IH: "can_use_skill now sid (run_calls cs (cooldown_step c s)) =
     (case spec_last_start sid cs of
        None \<Rightarrow> can_use_skill now sid (cooldown_step c s)
      | Some (t, d) \<Rightarrow> now \<ge> t + d)"
    using Cons.IH Cons.prems by simp
  show ?case
  proof (cases "spec_last_start sid cs")
    case (Some r)
    then show ?thesis using IH c by (simp split: prod.splits)
  next
    case None
    then show ?thesis using IH c le
      by (cases call) (auto simp: start_query sweep_query)
  qed
qed

text \<open>
  Claim C6, as amended. Start with no cooldown stored and run any interleaving of
  \<^verbatim>\<open>start_skill_cooldown\<close>, \<^verbatim>\<open>update_skill_cooldowns\<close> and \<^verbatim>\<open>can_use_skill\<close> calls, none of
  them at a clock reading later than the final query's. Then \<^verbatim>\<open>can_use_skill(id)\<close> is true
  if and only if \<^verbatim>\<open>start_skill_cooldown\<close> was never called for the id, or the time elapsed
  since the most recent such call is at least (not: strictly more than) the duration given
  in that call.
\<close>

theorem can_use_skill_iff_elapsed:
  assumes "skill_cooldowns s = Map.empty" and "\<forall>c \<in> set calls. fst c \<le> now"
  shows "can_use_skill now sid (run_calls calls s) = spec_can_use_skill_ge now sid calls"
proof -
  have "can_use_skill now sid s" using assms(1) by (simp add: can_use_skill_def)
  then show ?thesis
    using run_calls_query [OF assms(2), of sid s]
    by (auto simp: spec_can_use_skill_ge_def split: option.splits)
qed

text \<open>
  The amended claim C6 on a concrete interleaving: a cooldown of 5 started at time 0 is
  over at time 7 (and was swept at time 6), one of 3 started at time 6.5 is not.
\<close>

theorem can_use_skill_iff_elapsed_witness:
  "skill_cooldowns (GameState_init 0) = Map.empty
   \<and> list_all (\<lambda>c. fst c \<le> (7::real))
        [(0, StartSkillCooldown ''slash'' 5), (1, CanUseSkill ''slash''),
         (6, UpdateSkillCooldowns), (6.5, StartSkillCooldown ''kick'' 3)]
   \<and> can_use_skill 7 ''slash'' (run_calls
        [(0, StartSkillCooldown ''slash'' 5), (1, CanUseSkill ''slash''),
         (6, UpdateSkillCooldowns), (6.5, StartSkillCooldown ''kick'' 3)] (GameState_init 0))
   \<and> spec_can_use_skill_ge 7 ''slash''
        [(0, StartSkillCooldown ''slash'' 5), (1, CanUseSkill ''slash''),
         (6, UpdateSkillCooldowns), (6.5, StartSkillCooldown ''kick'' 3)]
   \<and> \<not> can_use_skill 7 ''kick'' (run_calls
        [(0, StartSkillCooldown ''slash'' 5), (1, CanUseSkill ''slash''),
         (6, UpdateSkillCooldowns), (6.5, StartSkillCooldown ''kick'' 3)] (GameState_init 0))"
  using can_use_skill_iff_elapsed [of "GameState_init 0"
        "[(0, StartSkillCooldown ''slash'' 5), (1, CanUseSkill ''slash''),
         (6, UpdateSkillCooldowns), (6.5, StartSkillCooldown ''kick'' 3)]" 7 "''slash''"]
  by (simp add: cooldown_defs)

text \<open>
  Claim C6 as stated asks for the elapsed time to exceed the duration. With a cooldown of
  5 started at time 0, \<^verbatim>\<open>can_use_skill\<close> at time 5 is already true, while the elapsed time,
  5, does not exceed 5.
\<close>

theorem can_use_skill_boundary_counterexample:
  "can_use_skill 5 ''slash'' (run_calls [(0, StartSkillCooldown ''slash'' 5)] (GameState_init 0))
   \<and> \<not> spec_can_use_skill 5 ''slash'' [(0, StartSkillCooldown ''slash'' 5)]"
  by (simp add: cooldown_defs)

subsection \<open>Route manager: stuck detection\<close>

lemmas route_defs = RouteManager_update_position_def route_distance_to_def is_stuck_def
  RouteManager_init_def Let_def

lemma creeping_counter:
  "last_position rm = Some p \<Longrightarrow> creeping p qs \<Longrightarrow>
   stuck_counter (run_position_updates qs rm) = stuck_counter rm + int (length qs)"
proof (induction qs arbitrary: p rm)
  case Nil
  then show ?case by simp
next
  case (Cons q qs)
  have lp: "last_position (RouteManager_update_position q rm) = Some q"
    by (simp add: RouteManager_update_position_def Let_def split: option.splits)
  have sc: "stuck_counter (RouteManager_update_position q rm) = stuck_counter rm + 1"
    using Cons.prems by (simp add: RouteManager_update_position_def Let_def)
  have "creeping q qs" using Cons.prems by simp
  from Cons.IH [OF lp this] sc show ?case by simp
qed

text \<open>
  Claim C9. Once a position has been reported, an update whose distance from the
  previously reported position is under 1.0 adds one to the stuck counter and any other
  update resets it to 0 (the very first update leaves it alone); the reported position is
  remembered; \<^verbatim>\<open>is_stuck\<close> is true exactly when the counter exceeds 10; so, starting from a
  counter of 0, a run of consecutive movements under 1.0 makes \<^verbatim>\<open>is_stuck\<close> true exactly
  when it has at least 11 of them.
\<close>

theorem stuck_detection:
  "(last_position rm = Some p \<longrightarrow>
      stuck_counter (RouteManager_update_position q rm) =
        (if route_distance_to q p < 1.0 then stuck_counter rm + 1 else 0))
   \<and> (last_position rm = None \<longrightarrow>
      stuck_counter (RouteManager_update_position q rm) = stuck_counter rm)
   \<and> last_position (RouteManager_update_position q rm) = Some q
   \<and> is_stuck rm = (stuck_counter rm > 10)
   \<and> (last_position rm = Some p \<and> stuck_counter rm = 0 \<and> creeping p qs \<longrightarrow>
      is_stuck (run_position_updates qs rm) = (length qs \<ge> 11))"
proof (intro conjI impI)
  show "stuck_counter (RouteManager_update_position q rm) =
        (if route_distance_to q p < 1.0 then stuck_counter rm + 1 else 0)"
    if "last_position rm = Some p"
    using that by (simp add: RouteManager_update_position_def Let_def)
  show "stuck_counter (RouteManager_update_position q rm) = stuck_counter rm"
    if "last_position rm = None"
    using that by (simp add: RouteManager_update_position_def Let_def)
  show "last_position (RouteManager_update_position q rm) = Some q"
    by (simp add: RouteManager_update_position_def Let_def split: option.splits)
  show "is_stuck rm = (stuck_counter rm > 10)"
    by (simp add: is_stuck_def)
  show "is_stuck (run_position_updates qs rm) = (length qs \<ge> 11)"
    if h: "last_position rm = Some p \<and> stuck_counter rm = 0 \<and> creeping p qs"
  proof -
    have "stuck_counter (run_position_updates qs rm) = int (length qs)"
      using creeping_counter [of rm p qs] h by simp
    then show ?thesis by (simp add: is_stuck_def) linarith
  qed
qed

text \<open>
  Claim C9 on concrete runs: after the first report at the origin, eleven reports half a
  unit away make the route manager stuck, ten do not, and a following report 1.5 units
  away resets the counter.
\<close>

theorem stuck_detection_witness:
  "last_position (RouteManager_update_position \<lparr>rp_x = 0, rp_y = 0, rp_z = 0\<rparr> RouteManager_init)
     = Some \<lparr>rp_x = 0, rp_y = 0, rp_z = 0\<rparr>
   \<and> stuck_counter (RouteManager_update_position \<lparr>rp_x = 0, rp_y = 0, rp_z = 0\<rparr> RouteManager_init) = 0
   \<and> creeping \<lparr>rp_x = 0, rp_y = 0, rp_z = 0\<rparr> (replicate 11 \<lparr>rp_x = 0.5, rp_y = 0, rp_z = 0\<rparr>)
   \<and> is_stuck (run_position_updates (replicate 11 \<lparr>rp_x = 0.5, rp_y = 0, rp_z = 0\<rparr>)
        (RouteManager_update_position \<lparr>rp_x = 0, rp_y = 0, rp_z = 0\<rparr> RouteManager_init))
   \<and> \<not> is_stuck (run_position_updates (replicate 10 \<lparr>rp_x = 0.5, rp_y = 0, rp_z = 0\<rparr>)
        (RouteManager_update_position \<lparr>rp_x = 0, rp_y = 0, rp_z = 0\<rparr> RouteManager_init))
   \<and> stuck_counter (RouteManager_update_position \<lparr>rp_x = 2, rp_y = 0, rp_z = 0\<rparr>
        (run_position_updates (replicate 10 \<lparr>rp_x = 0.5, rp_y = 0, rp_z = 0\<rparr>)
          (RouteManager_update_position \<lparr>rp_x = 0, rp_y = 0, rp_z = 0\<rparr> RouteManager_init))) = 0"
  using stuck_detection [of "RouteManager_update_position \<lparr>rp_x = 0, rp_y = 0, rp_z = 0\<rparr> RouteManager_init"
      "\<lparr>rp_x = 0, rp_y = 0, rp_z = 0\<rparr>" "\<lparr>rp_x = 0.5, rp_y = 0, rp_z = 0\<rparr>"
      "replicate 11 \<lparr>rp_x = 0.5, rp_y = 0, rp_z = 0\<rparr>"]
  by (simp add: route_defs eval_nat_numeral real_sqrt_abs power2_eq_square)

subsection \<open>Combo manager: abort, counters and the resource debit\<close>

lemmas combo_defs = execute_combo_def check_combo_conditions_def check_cooldown_def last_use_def
  check_action_conditions_def apply_action_def release_all_keys_def consume_mp_def
  start_cooldown_def start_skill_cooldown_def ComboManager_init_def GameState_init_def
  CharacterStats_default_def dict_get_def update_stats_def Let_def

lemmas example_defs = example_combo_def example_manager_def lua_true_def quiet_def
  stun_during_first_step_def mp_drops_during_first_step_def

lemma run_actions_abort:
  "run_actions world i as gs = (Some j, gs', evs) \<Longrightarrow>
     \<not> check_action_conditions gs' \<and> i \<le> j \<and> j < i + length as"
proof (induction as arbitrary: i gs evs)
  case Nil
  then show ?case by simp
next
  case (Cons a as)
  show ?case
  proof (cases "check_action_conditions gs")
    case False
    with Cons.prems show ?thesis by simp
  next
    case True
    obtain r g e where rec: "run_actions world (Suc i) as (world i gs) = (r, g, e)"
      by (cases "run_actions world (Suc i) as (world i gs)")
    with True Cons.prems have "r = Some j" "g = gs'" by auto
    with rec Cons.IH [of "Suc i" "world i gs" e] show ?thesis by auto
  qed
qed

lemma run_actions_mp:
  assumes "\<forall>i g. mp (stats (world i g)) = mp (stats g)"
  shows "mp (stats (fst (snd (run_actions world i as gs)))) = mp (stats gs)"
proof (induction as arbitrary: i gs)
  case Nil
  then show ?case by simp
next
  case (Cons a as)
  show ?case
  proof (cases "check_action_conditions gs")
    case False
    then show ?thesis by simp
  next
    case True
    obtain r g e where rec: "run_actions world (Suc i) as (world i gs) = (r, g, e)"
      by (cases "run_actions world (Suc i) as (world i gs)")
    have "mp (stats g) = mp (stats (world i gs))"
      using Cons.IH [of "Suc i" "world i gs"] rec by simp
    with True rec assms show ?thesis by simp
  qed
qed

lemma release_all_keys_set:
  assumes "current_combo cm = Some cn" "cn \<noteq> []" "map_of (combos cm) cn = Some combo"
  shows "set (release_all_keys cm) =
           ReleaseKey ` ({''shift'', ''ctrl'', ''alt''} \<union> (\<Union>a \<in> set (actions combo). set (keys a)))"
  using assms by (auto simp: release_all_keys_def)

lemma release_all_keys_unnamed:
  "current_combo cm = Some [] \<Longrightarrow>
     release_all_keys cm = [ReleaseKey ''shift'', ReleaseKey ''ctrl'', ReleaseKey ''alt'']"
  by (simp add: release_all_keys_def)

text \<open>
  The abort path for a combo loaded under a non-empty name: the call returns failure, the
  input calls made after the steps that ran release exactly the three modifiers and every
  key of every step of the combo, neither counter changes and no combo is current
  afterwards.
\<close>

lemma execute_combo_abort:
  assumes c: "map_of (combos cm) cn = Some combo"
    and ok: "check_combo_conditions lua t_check combo cm gs"
    and ab: "run_actions world 0 (actions combo) gs = (Some i, gs', evs)"
    and ne: "cn \<noteq> []"
  shows "\<exists>cm' rel. execute_combo lua world t_check t_start t_end cn cm gs = (False, cm', gs', evs @ rel)
           \<and> set rel = ReleaseKey ` ({''shift'', ''ctrl'', ''alt''}
                                       \<union> (\<Union>a \<in> set (actions combo). set (keys a)))
           \<and> successful_skills cm' = successful_skills cm
           \<and> total_skills cm' = total_skills cm
           \<and> current_combo cm' = None"
proof -
  define history where "history = combo_history cm @ [(cn, t_start)]"
  define cm1 where "cm1 = cm\<lparr>current_combo := Some cn, last_combo_time := t_start,
       combo_history := (if int (length history) > max_history cm then tl history else history)\<rparr>"
  have e: "execute_combo lua world t_check t_start t_end cn cm gs
         = (False, cm1\<lparr>current_combo := None\<rparr>, gs', evs @ release_all_keys cm1)"
    using c ok ab by (simp add: execute_combo_def Let_def cm1_def history_def)
  have "current_combo cm1 = Some cn" "map_of (combos cm1) cn = Some combo"
    using c by (simp_all add: cm1_def)
  then have "set (release_all_keys cm1) = ReleaseKey ` ({''shift'', ''ctrl'', ''alt''}
                                       \<union> (\<Union>a \<in> set (actions combo). set (keys a)))"
    using ne release_all_keys_set by blast
  moreover have "successful_skills (cm1\<lparr>current_combo := None\<rparr>) = successful_skills cm"
    "total_skills (cm1\<lparr>current_combo := None\<rparr>) = total_skills cm"
    by (simp_all add: cm1_def)
  ultimately show ?thesis using e by auto
qed

lemma execute_combo_failure_counters:
  assumes "\<not> fst (execute_combo lua world t_check t_start t_end cn cm gs)"
  shows "successful_skills (fst (snd (execute_combo lua world t_check t_start t_end cn cm gs)))
           = successful_skills cm
       \<and> total_skills (fst (snd (execute_combo lua world t_check t_start t_end cn cm gs)))
           = total_skills cm"
  using assms
  by (auto simp: execute_combo_def Let_def split: option.splits prod.splits if_splits)

lemma execute_combo_success:
  assumes c: "map_of (combos cm) cn = Some combo"
    and s: "fst (execute_combo lua world t_check t_start t_end cn cm gs)"
  shows "successful_skills (fst (snd (execute_combo lua world t_check t_start t_end cn cm gs)))
           = successful_skills cm + 1
       \<and> total_skills (fst (snd (execute_combo lua world t_check t_start t_end cn cm gs)))
           = total_skills cm + 1
       \<and> fst (snd (snd (execute_combo lua world t_check t_start t_end cn cm gs)))
           = consume_mp combo (start_cooldown t_end combo
               (fst (snd (run_actions world 0 (actions combo) gs))))
       \<and> check_combo_conditions lua t_check combo cm gs"
  using assms
  by (auto simp: execute_combo_def Let_def split: option.splits prod.splits if_splits)

lemma consume_mp_mp: "mp (stats (consume_mp combo gs)) = mp (stats gs) - mp_cost combo"
  by (simp add: consume_mp_def)

lemma start_cooldown_mp: "mp (stats (start_cooldown t combo gs)) = mp (stats gs)"
  by (simp add: start_cooldown_def start_skill_cooldown_def Let_def)

lemma held_after_append: "held_after (xs @ ys) held = held_after ys (held_after xs held)"
proof (induction xs arbitrary: held)
  case Nil
  then show ?case by simp
next
  case (Cons e xs)
  then show ?case by (cases e) simp_all
qed

lemma held_after_releases: "held_after (map ReleaseKey ks) held = held - set ks"
  by (induction ks arbitrary: held) auto

lemma release_all_keys_named:
  assumes "current_combo cm = Some cn" "cn \<noteq> []" "map_of (combos cm) cn = Some combo"
  shows "release_all_keys cm =
           map ReleaseKey ([''shift'', ''ctrl'', ''alt''] @ concat (map keys (actions combo)))"
  using assms by (simp add: release_all_keys_def map_concat comp_def)

text \<open>
  Claim C3, as amended. For every combo loaded under a non-empty name that
  \<^verbatim>\<open>execute_combo\<close> accepts, whatever the other coroutines do meanwhile, and every step
  index at which the cancellation check before the step fails: \<^verbatim>\<open>execute_combo\<close> returns
  failure; the input calls it made are those of the steps that ran, followed by the release
  of \<^verbatim>\<open>shift\<close>, \<^verbatim>\<open>ctrl\<close>, \<^verbatim>\<open>alt\<close> and then of every key of every step of the combo, in order;
  so the set of inputs released on the abort path is the modifiers united with every input
  the combo refers to, and whatever was held before the call, none of these inputs is held
  after it.
\<close>

theorem abort_releases_sequence_inputs:
  assumes c: "map_of (combos cm) cn = Some combo" and ne: "cn \<noteq> []"
    and ok: "check_combo_conditions lua t_check combo cm gs"
    and ab: "run_actions world 0 (actions combo) gs = (Some i, gs', evs)"
  shows "fst (execute_combo lua world t_check t_start t_end cn cm gs) = False
       \<and> i < length (actions combo) \<and> \<not> check_action_conditions gs'
       \<and> snd (snd (snd (execute_combo lua world t_check t_start t_end cn cm gs)))
           = evs @ map ReleaseKey ([''shift'', ''ctrl'', ''alt'']
                                   @ concat (map keys (actions combo)))
       \<and> {k. ReleaseKey k \<in> set (drop (length evs)
               (snd (snd (snd (execute_combo lua world t_check t_start t_end cn cm gs)))))}
           = {''shift'', ''ctrl'', ''alt''} \<union> (\<Union>a \<in> set (actions combo). set (keys a))
       \<and> held_after (snd (snd (snd (execute_combo lua world t_check t_start t_end cn cm gs)))) held
           \<inter> ({''shift'', ''ctrl'', ''alt''} \<union> (\<Union>a \<in> set (actions combo). set (keys a))) = {}"
proof -
  define history where "history = combo_history cm @ [(cn, t_start)]"
  define cm1 where "cm1 = cm\<lparr>current_combo := Some cn, last_combo_time := t_start,
       combo_history := (if int (length history) > max_history cm then tl history else history)\<rparr>"
  let ?ks = "[''shift'', ''ctrl'', ''alt''] @ concat (map keys (actions combo))"
  let ?r = "execute_combo lua world t_check t_start t_end cn cm gs"
  have e: "?r = (False, cm1\<lparr>current_combo := None\<rparr>, gs', evs @ release_all_keys cm1)"
    using c ok ab by (simp add: execute_combo_def Let_def cm1_def history_def)
  have "current_combo cm1 = Some cn" "map_of (combos cm1) cn = Some combo"
    using c by (simp_all add: cm1_def)
  then have rel: "release_all_keys cm1 = map ReleaseKey ?ks"
    using ne release_all_keys_named by blast
  have evs: "snd (snd (snd ?r)) = evs @ map ReleaseKey ?ks"
    using e rel by simp
  have ks: "set ?ks = {''shift'', ''ctrl'', ''alt''} \<union> (\<Union>a \<in> set (actions combo). set (keys a))"
    by auto
  have released: "{k. ReleaseKey k \<in> set (drop (length evs) (snd (snd (snd ?r))))} = set ?ks"
    unfolding evs by auto
  have "held_after (snd (snd (snd ?r))) held = held_after evs held - set ?ks"
    unfolding evs by (simp only: held_after_append held_after_releases)
  then have held: "held_after (snd (snd (snd ?r))) held \<inter> set ?ks = {}"
    by blast
  have idx: "i < length (actions combo) \<and> \<not> check_action_conditions gs'"
    using run_actions_abort [OF ab] by simp
  show ?thesis
    using e idx evs released held unfolding ks by simp
qed

text \<open>
  The amended claim C3 on the combo \<^verbatim>\<open>slash\<close> (press \<^verbatim>\<open>a\<close>, press \<^verbatim>\<open>b\<close>), with the character
  stunned during the first step, so that the check before the second step fails:
  \<^verbatim>\<open>a\<close> is pressed, then the modifiers, \<^verbatim>\<open>a\<close> and \<^verbatim>\<open>b\<close> are released, and of the keys held
  before the call only one the combo does not refer to is still held.
\<close>

theorem abort_releases_sequence_inputs_witness:
  "map_of (combos (example_manager ''slash'' 30)) ''slash'' = Some (example_combo ''slash'' 30)
   \<and> ''slash'' \<noteq> []
   \<and> check_combo_conditions lua_true 100 (example_combo ''slash'' 30)
        (example_manager ''slash'' 30) (GameState_init 0)
   \<and> run_actions stun_during_first_step 0 (actions (example_combo ''slash'' 30)) (GameState_init 0)
       = (Some 1, (GameState_init 0)\<lparr>character_state := STUNNED\<rparr>, [PressKey ''a''])
   \<and> fst (execute_combo lua_true stun_during_first_step 100 100 101 ''slash''
            (example_manager ''slash'' 30) (GameState_init 0)) = False
   \<and> snd (snd (snd (execute_combo lua_true stun_during_first_step 100 100 101 ''slash''
            (example_manager ''slash'' 30) (GameState_init 0))))
       = [PressKey ''a'', ReleaseKey ''shift'', ReleaseKey ''ctrl'', ReleaseKey ''alt'',
          ReleaseKey ''a'', ReleaseKey ''b'']
   \<and> held_after (snd (snd (snd (execute_combo lua_true stun_during_first_step 100 100 101
            ''slash'' (example_manager ''slash'' 30) (GameState_init 0)))))
        {''shift'', ''b'', ''w''} = {''w''}"
  using abort_releases_sequence_inputs [of "example_manager ''slash'' 30" "''slash''"
      "example_combo ''slash'' 30" lua_true 100 "GameState_init 0" stun_during_first_step 1
      "(GameState_init 0)\<lparr>character_state := STUNNED\<rparr>" "[PressKey ''a'']" 100 101
      "{''shift'', ''b'', ''w''}"]
  by (simp add: combo_defs example_defs)

text \<open>
  Claim C3 as stated, for every loaded sequence, fails for a combo loaded under the empty
  name. The combo has the steps press \<^verbatim>\<open>a\<close>, press \<^verbatim>\<open>b\<close>. With a dead character the check
  before the first step fails: \<^verbatim>\<open>execute_combo\<close> returns failure, and the inputs released on
  that path are the three modifiers only, not \<^verbatim>\<open>a\<close> and \<^verbatim>\<open>b\<close>, because \<^verbatim>\<open>release_all_keys\<close>
  skips the combo's keys when the name is falsy. The same happens when the character is
  stunned during the first step and the check before the second step fails, after
  \<^verbatim>\<open>a\<close> has been pressed.
\<close>

theorem abort_unnamed_combo_releases_modifiers_only:
  "fst (execute_combo lua_true quiet 100 100 101 ''''
          (example_manager '''' 30) (update_stats [''hp'' \<mapsto> 0] (GameState_init 0))) = False
   \<and> snd (snd (snd (execute_combo lua_true quiet 100 100 101 ''''
          (example_manager '''' 30) (update_stats [''hp'' \<mapsto> 0] (GameState_init 0)))))
       = [ReleaseKey ''shift'', ReleaseKey ''ctrl'', ReleaseKey ''alt'']
   \<and> fst (execute_combo lua_true stun_during_first_step 100 100 101 ''''
          (example_manager '''' 30) (GameState_init 0)) = False
   \<and> snd (snd (snd (execute_combo lua_true stun_during_first_step 100 100 101 ''''
          (example_manager '''' 30) (GameState_init 0))))
       = [PressKey ''a'', ReleaseKey ''shift'', ReleaseKey ''ctrl'', ReleaseKey ''alt'']
   \<and> map_of (combos (example_manager '''' 30)) '''' = Some (example_combo '''' 30)
   \<and> concat (map keys (actions (example_combo '''' 30))) = [''a'', ''b'']"
  by (simp add: combo_defs example_defs)

text \<open>
  Claim C4 fails on the failure path (a defect of the code). The combo \<^verbatim>\<open>slash\<close> is
  accepted and aborted, before its first step for a dead character and before its second
  step for a character stunned during the first; \<^verbatim>\<open>execute_combo\<close> returns failure and the
  attempt counter \<^verbatim>\<open>total_skills\<close> is what it was, 0, not one more: the counter is
  incremented only next to the success counter (lemma \<open>execute_combo_failure_counters\<close>
  shows this for every failing call, \<open>execute_combo_success\<close> the effects of a completed
  one).
\<close>

theorem abort_leaves_attempt_counter:
  "check_combo_conditions lua_true 100 (example_combo ''slash'' 30) (example_manager ''slash'' 30)
     (update_stats [''hp'' \<mapsto> 0] (GameState_init 0))
   \<and> fst (execute_combo lua_true quiet 100 100 101 ''slash''
          (example_manager ''slash'' 30) (update_stats [''hp'' \<mapsto> 0] (GameState_init 0))) = False
   \<and> total_skills (fst (snd (execute_combo lua_true quiet 100 100 101 ''slash''
          (example_manager ''slash'' 30) (update_stats [''hp'' \<mapsto> 0] (GameState_init 0)))))
       = total_skills (example_manager ''slash'' 30)
   \<and> fst (execute_combo lua_true stun_during_first_step 100 100 101 ''slash''
          (example_manager ''slash'' 30) (GameState_init 0)) = False
   \<and> total_skills (fst (snd (execute_combo lua_true stun_during_first_step 100 100 101 ''slash''
          (example_manager ''slash'' 30) (GameState_init 0))))
       = total_skills (example_manager ''slash'' 30)
   \<and> total_skills (example_manager ''slash'' 30) = 0"
  by (simp add: combo_defs example_defs)

text \<open>
  Claim C5, as amended. \<^verbatim>\<open>_consume_mp\<close> subtracts the cost without clamping: the resulting
  \<^verbatim>\<open>mp\<close> is the old value minus the cost, non-negative exactly when the cost is at most the
  old value; the debited value is what the next resource check compares a cost against;
  and when no other coroutine changes \<^verbatim>\<open>mp\<close> while the sequence runs, the resource check
  at acceptance makes the debit of a completed combo end at or above zero.
\<close>

theorem consume_mp_unclamped:
  "mp (stats (consume_mp combo gs)) = mp (stats gs) - mp_cost combo
   \<and> (0 \<le> mp (stats (consume_mp combo gs))) = (mp_cost combo \<le> mp (stats gs))
   \<and> check_combo_conditions lua now next_combo cm (consume_mp combo gs) =
       (check_cooldown now next_combo cm
        \<and> mp_cost next_combo \<le> mp (stats gs) - mp_cost combo
        \<and> lua (dict_get (map_of (conditions next_combo)) ''check'' ''return true'') = Some True)
   \<and> ((\<forall>i g. mp (stats (world i g)) = mp (stats g))
        \<and> map_of (combos cm) cn = Some combo
        \<and> fst (execute_combo lua world t_check t_start t_end cn cm gs)
      \<longrightarrow> mp (stats (fst (snd (snd (execute_combo lua world t_check t_start t_end cn cm gs)))))
            = mp (stats gs) - mp_cost combo
          \<and> 0 \<le> mp (stats (fst (snd (snd (execute_combo lua world t_check t_start t_end cn cm gs))))))"
proof (intro conjI impI)
  show "mp (stats (consume_mp combo gs)) = mp (stats gs) - mp_cost combo"
    by (rule consume_mp_mp)
  show "(0 \<le> mp (stats (consume_mp combo gs))) = (mp_cost combo \<le> mp (stats gs))"
    by (simp add: consume_mp_mp)
  show "check_combo_conditions lua now next_combo cm (consume_mp combo gs) =
       (check_cooldown now next_combo cm
        \<and> mp_cost next_combo \<le> mp (stats gs) - mp_cost combo
        \<and> lua (dict_get (map_of (conditions next_combo)) ''check'' ''return true'') = Some True)"
    by (auto simp: check_combo_conditions_def consume_mp_mp split: option.splits)
next
  assume h: "(\<forall>i g. mp (stats (world i g)) = mp (stats g))
        \<and> map_of (combos cm) cn = Some combo
        \<and> fst (execute_combo lua world t_check t_start t_end cn cm gs)"
  let ?r = "execute_combo lua world t_check t_start t_end cn cm gs"
  from h have s: "fst (snd (snd ?r)) = consume_mp combo (start_cooldown t_end combo
               (fst (snd (run_actions world 0 (actions combo) gs))))"
    and acc: "check_combo_conditions lua t_check combo cm gs"
    using execute_combo_success [of cm cn combo lua world t_check t_start t_end gs] by simp_all
  have m: "mp (stats (fst (snd (run_actions world 0 (actions combo) gs)))) = mp (stats gs)"
    using h run_actions_mp by blast
  show eq: "mp (stats (fst (snd (snd ?r)))) = mp (stats gs) - mp_cost combo"
    by (simp add: s consume_mp_mp start_cooldown_mp m)
  have "mp_cost combo \<le> mp (stats gs)"
    using acc by (auto simp: check_combo_conditions_def split: if_splits)
  then show "0 \<le> mp (stats (fst (snd (snd ?r))))" using eq by simp
qed

text \<open>
  The amended claim C5 on a concrete run: \<^verbatim>\<open>slash\<close> costs 30 and completes undisturbed from
  \<^verbatim>\<open>mp = 100\<close>, leaving 70.
\<close>

theorem consume_mp_unclamped_witness:
  "(\<forall>i g. mp (stats (quiet i g)) = mp (stats g))
   \<and> map_of (combos (example_manager ''slash'' 30)) ''slash'' = Some (example_combo ''slash'' 30)
   \<and> fst (execute_combo lua_true quiet 100 100 101 ''slash''
            (example_manager ''slash'' 30) (GameState_init 0))
   \<and> mp (stats (fst (snd (snd (execute_combo lua_true quiet 100 100 101 ''slash''
            (example_manager ''slash'' 30) (GameState_init 0)))))) = 70
   \<and> mp (stats (consume_mp (example_combo ''slash'' 30) (GameState_init 0))) = 70"
  using consume_mp_unclamped [of "example_combo ''slash'' 30" "GameState_init 0" lua_true 0
      "example_combo ''slash'' 30" "example_manager ''slash'' 30" quiet "''slash''" 100 100 101]
  by (simp add: combo_defs example_defs)

text \<open>
  Claim C5 as stated fails: a debit of 30 from \<^verbatim>\<open>mp = 10\<close> gives \<^verbatim>\<open>-20\<close>, not 0; and this
  happens in a completed combo when a stats update reports \<^verbatim>\<open>mp = 10\<close> between the
  acceptance check and the debit.
\<close>

theorem consume_mp_negative_counterexample:
  "mp (stats (consume_mp (example_combo ''slash'' 30)
        (update_stats [''mp'' \<mapsto> 10] (GameState_init 0)))) = - 20
   \<and> fst (execute_combo lua_true mp_drops_during_first_step 100 100 101 ''slash''
            (example_manager ''slash'' 30) (GameState_init 0))
   \<and> mp (stats (fst (snd (snd (execute_combo lua_true mp_drops_during_first_step 100 100 101
            ''slash'' (example_manager ''slash'' 30) (GameState_init 0)))))) = - 20"
  by (simp add: combo_defs example_defs)

subsection \<open>Target validity\<close>

lemmas target_defs = CombatSystem_is_target_valid_def is_target_valid_def spec_target_valid_def
  CombatSystem_init_def MobController_init_def GameState_init_def distance_to_def Let_def
  example_mob_def

text \<open>
  Claim C8, as amended. The check of the combat cycle, \<^verbatim>\<open>CombatSystem._is_target_valid\<close>,
  returns true exactly when there is a target, the distance from the character to it is
  at most the maximum chase distance and its health is positive; it does not look at the
  tracked mobs. It changes nothing but the kill counter, which it increments exactly when
  there is a target within the chase distance whose health is at most 0.
  \<^verbatim>\<open>MobController.is_target_valid\<close> returns true exactly when there is a target, its id is
  tracked and its stored distance is at most the maximum chase distance; it does not look
  at the health and has no effect.
\<close>

theorem target_validity_checks:
  "fst (CombatSystem_is_target_valid cs gs) =
     (case cs_current_target cs of
        None \<Rightarrow> False
      | Some tg \<Rightarrow> distance_to (position gs) (mob_position tg) \<le> cs_max_chase_distance cs
                  \<and> health tg > 0)
   \<and> snd (CombatSystem_is_target_valid cs gs) =
       cs\<lparr>metrics := (metrics cs)\<lparr>kills := kills (metrics cs) +
          (case cs_current_target cs of
             None \<Rightarrow> 0
           | Some tg \<Rightarrow>
               if distance_to (position gs) (mob_position tg) \<le> cs_max_chase_distance cs
                  \<and> health tg \<le> 0 then 1 else 0)\<rparr>\<rparr>
   \<and> is_target_valid mc =
       (case mc_current_target mc of
          None \<Rightarrow> False
        | Some tg \<Rightarrow> mob_id tg \<in> fst ` set (tracked_mobs mc)
                    \<and> distance tg \<le> mc_max_chase_distance mc)"
  by (auto simp: CombatSystem_is_target_valid_def is_target_valid_def Let_def
           split: option.splits)

text \<open>
  Claim C8 as stated fails: with nothing tracked, a live target at the character's
  position passes the combat cycle's check although its id is not tracked; and a tracked
  target in range with health 0 passes the mob controller's check.
\<close>

theorem target_validity_counterexample:
  "fst (CombatSystem_is_target_valid (CombatSystem_init\<lparr>cs_current_target := Some (example_mob 1 0 100)\<rparr>)
          (GameState_init 0))
   \<and> mob_id (example_mob 1 0 100) \<notin> fst ` set (tracked_mobs MobController_init)
   \<and> \<not> spec_target_valid (example_mob 1 0 100) (tracked_mobs MobController_init)
         (distance_to (position (GameState_init 0)) (mob_position (example_mob 1 0 100)))
         (cs_max_chase_distance CombatSystem_init)
   \<and> is_target_valid (MobController_init\<lparr>tracked_mobs := [(1, example_mob 1 0 0)],
                                          mc_current_target := Some (example_mob 1 0 0)\<rparr>)
   \<and> health (example_mob 1 0 0) \<le> 0"
  by (simp add: target_defs)

subsection \<open>Mob tracking\<close>

lemmas frame_defs = process_frame_def find_matching_mob_def cleanup_old_mobs_def
  screen_to_world_pos_def calculate_threat_level_def mob_info_to_dict_def update_mobs_def
  MobController_init_def GameState_init_def Let_def wolf_detection_def

text \<open>A cycle without detections that returns leaves nothing tracked, whatever was tracked.\<close>

lemma process_frame_no_detections:
  "process_frame [] t mc gs = Some (ms, mc', gs') \<Longrightarrow> tracked_mobs mc' = [] \<and> ms = []"
  by (auto simp: process_frame_def Let_def split: option.splits)

text \<open>
  Claim C2 fails (a defect of the code). A first cycle at time 10 detects one mob, which
  is tracked with id 1 and last seen at 10; the memory window is 3.0. A second cycle at
  time 10.5 has no detection: the mob, unrefreshed for half a second, is no longer
  tracked. \<^verbatim>\<open>process_frame\<close> overwrites \<^verbatim>\<open>tracked_mobs\<close> with the mobs of this cycle's
  detections right after \<^verbatim>\<open>_cleanup_old_mobs\<close> has applied the window.
\<close>

theorem unmatched_mob_dropped_within_memory_window:
  "(case process_frame [(DictDetection wolf_detection, 10)] 10 MobController_init (GameState_init 0) of
      None \<Rightarrow> False
    | Some (mobs1, mc1, gs1) \<Rightarrow>
        map fst (tracked_mobs mc1) = [1]
        \<and> map (\<lambda>e. last_seen (snd e)) (tracked_mobs mc1) = [10]
        \<and> mob_memory_time mc1 = 3.0
        \<and> (case process_frame [] 10.5 mc1 gs1 of
             None \<Rightarrow> False
           | Some (mobs2, mc2, gs2) \<Rightarrow> tracked_mobs mc2 = [] \<and> mobs2 = []))"
  by (simp add: frame_defs)

subsection \<open>The PvP gate\<close>












end
